theory Spec2Isabelle
  imports Complex_Main
begin

section \<open>Strings of the host language\<close>

text \<open>
  A JavaScript string is a sequence of UTF-16 code units; a code unit is modelled by its
  number. Literals of the source are written with \<open>lit\<close>; a character outside ASCII is
  given by its code unit.
\<close>

type_synonym jsstring = "nat list"

definition lit :: "string \<Rightarrow> jsstring" where
  "lit s = map of_char s"

text \<open>
  \<open>String.prototype.trim\<close> removes white space and line terminators from both ends:
  TAB, LF, VT, FF, CR, SP, NBSP, U+1680, U+2000 to U+200A, U+2028, U+2029, U+202F,
  U+205F, U+3000 and U+FEFF.
\<close>

definition isWhiteSpace :: "nat \<Rightarrow> bool" where
  "isWhiteSpace c \<longleftrightarrow>
     c = 9 \<or> c = 10 \<or> c = 11 \<or> c = 12 \<or> c = 13 \<or> c = 32 \<or> c = 160 \<or> c = 5760 \<or>
     (8192 \<le> c \<and> c \<le> 8202) \<or> c = 8232 \<or> c = 8233 \<or> c = 8239 \<or> c = 8287 \<or>
     c = 12288 \<or> c = 65279"

definition trim :: "jsstring \<Rightarrow> jsstring" where
  "trim s = rev (dropWhile isWhiteSpace (rev (dropWhile isWhiteSpace s)))"

text \<open>\<open>xs.join(sep)\<close> on an array of strings.\<close>

fun join :: "jsstring \<Rightarrow> jsstring list \<Rightarrow> jsstring" where
  "join sep [] = []"
| "join sep [x] = x"
| "join sep (x # y # ys) = x @ sep @ join sep (y # ys)"

text \<open>
  \<open>s.split(c)\<close> for a separator of one code unit: the empty string gives one empty
  piece, and a trailing separator gives a trailing empty piece.
\<close>

fun split :: "nat \<Rightarrow> jsstring \<Rightarrow> jsstring list" where
  "split sep [] = [[]]"
| "split sep (c # cs) =
     (if c = sep then [] # split sep cs
      else (case split sep cs of [] \<Rightarrow> [[c]] | x # xs \<Rightarrow> (c # x) # xs))"

text \<open>
  The first piece of \<open>s.split(sep)\<close> for a separator that is not empty: the text before
  the first occurrence of \<open>sep\<close> (all of \<open>s\<close> when there is none). This is what the
  destructuring \<open>const [tag] = line.split(' | ')\<close> binds.
\<close>

fun firstPiece :: "jsstring \<Rightarrow> jsstring \<Rightarrow> jsstring" where
  "firstPiece sep [] = []"
| "firstPiece sep (c # cs) =
     (if take (length sep) (c # cs) = sep then [] else c # firstPiece sep cs)"

text \<open>A non-negative integer in a template literal: its decimal digits.\<close>

fun decimal :: "nat \<Rightarrow> jsstring" where
  "decimal n = (if n < 10 then [48 + n] else decimal (n div 10) @ [48 + n mod 10])"

declare decimal.simps [simp del]

section \<open>Errors\<close>

text \<open>
  Every \<open>throw\<close> of the source and every failure of an external call is a value of
  \<open>error\<close>. The source throws plain \<open>Error\<close> objects that differ in their message
  only; the constructors name them as the specification does, and \<open>message\<close> gives the
  text the source puts into each (\<open>None\<close> for an error that the runtime or a library
  raises, whose text the source does not determine).
\<close>

datatype selection = CommitSelection | TagSelection

datatype fs_code = EEXIST | ENOENT | ENOTDIR | EISDIR

datatype error =
    NotAGitRepository
  | NoCommitsFound
  | NoTagsFound
  | InvalidSelection selection
  | DateParseFailure
  | NoRevisionForTimestamp
  | MissingCredential
  | CompletionServiceError nat jsstring jsstring
  | EmptyCompletion
  | TypeError
  | RangeError
  | GitLogFailed
  | CommandFailed jsstring
  | FetchFailed
  | BodyReadFailed
  | FsError fs_code

fun message :: "error \<Rightarrow> jsstring option" where
  "message NotAGitRepository = Some (lit ''This tool must be run inside a Git repository.'')"
| "message NoCommitsFound = Some (lit ''No commits found.'')"
| "message NoTagsFound = Some (lit ''No tags found.'')"
| "message (InvalidSelection CommitSelection) =
     Some (lit ''FROM and TO commits cannot be the same.'')"
| "message (InvalidSelection TagSelection) =
     Some (lit ''FROM and TO tags cannot be the same.'')"
| "message DateParseFailure =
     Some (lit ''Could not parse dates. Please try again with clearer input.'')"
| "message NoRevisionForTimestamp =
     Some (lit ''Could not find commits for the given time range.'')"
| "message MissingCredential = Some (lit ''OPENAI_API_KEY is required.'')"
| "message (CompletionServiceError status statusText text) =
     Some (lit ''Azure OpenAI error: '' @ decimal status @ lit '' '' @ statusText @
           lit '' - '' @ text)"
| "message EmptyCompletion = Some (lit ''Received empty content from the model.'')"
| "message _ = None"

section \<open>Range resolution\<close>

record revrange =
  from_rev :: jsstring
  to_rev :: jsstring

record log_entry =
  hash :: jsstring
  date :: jsstring
  message_of :: jsstring

text \<open>
  \<open>execSync\<close> is a parameter \<open>exec\<close>: it maps the command line to the text the command
  prints, or to \<open>None\<close> when \<open>execSync\<close> throws.
\<close>

type_synonym shell = "jsstring \<Rightarrow> jsstring option"

definition run :: "shell \<Rightarrow> jsstring \<Rightarrow> error + jsstring" where
  "run exec cmd = (case exec cmd of None \<Rightarrow> Inl (CommandFailed cmd) | Some out \<Rightarrow> Inr out)"

definition ancestryCommand :: "jsstring \<Rightarrow> jsstring \<Rightarrow> jsstring" where
  "ancestryCommand from to =
     lit ''git rev-list --ancestry-path '' @ from @ lit ''..'' @ to @ lit '' | wc -l''"

text \<open>
  A choice of a list prompt: the line shown and the value the prompt returns for it.
\<close>

record choice =
  choiceName :: jsstring
  choiceValue :: jsstring

text \<open>
  The choices of the commit prompts, \<open>log.all.map(...)\<close>: the name holds the first seven
  code units of the hash, the first ten of \<open>new Date(entry.date).toISOString()\<close> and the
  message. \<open>newDate\<close> is the constructor of \<open>Date\<close> on a string (\<open>None\<close> for an invalid
  date), and \<open>toISOString\<close> throws \<open>RangeError\<close> on an invalid date, so the first entry
  whose date does not parse ends the construction with that error.
\<close>

fun commitChoices ::
  "(jsstring \<Rightarrow> int option) \<Rightarrow> (int \<Rightarrow> jsstring) \<Rightarrow> log_entry list \<Rightarrow> error + choice list" where
  "commitChoices newDate toISOString [] = Inr []"
| "commitChoices newDate toISOString (entry # rest) =
     (case newDate (date entry) of
        None \<Rightarrow> Inl RangeError
      | Some stamp \<Rightarrow>
          (case commitChoices newDate toISOString rest of
             Inl e \<Rightarrow> Inl e
           | Inr choices \<Rightarrow>
               Inr (\<lparr>choiceName =
                       take 7 (hash entry) @ lit ''  '' @ take 10 (toISOString stamp) @
                       lit ''  '' @ message_of entry,
                     choiceValue = hash entry\<rparr> # choices)))"

text \<open>
  \<open>selectByCommits\<close>: \<open>gitLog\<close> is the outcome of \<open>gitInstance.log\<close> (\<open>None\<close> when it
  rejects), \<open>from\<close> and \<open>to\<close> are the values the two list prompts return.
\<close>

definition selectByCommits ::
  "log_entry list option \<Rightarrow> (jsstring \<Rightarrow> int option) \<Rightarrow> (int \<Rightarrow> jsstring) \<Rightarrow> shell \<Rightarrow>
     jsstring \<Rightarrow> jsstring \<Rightarrow> error + revrange" where
  "selectByCommits gitLog newDate toISOString exec from to =
     (case gitLog of
        None \<Rightarrow> Inl GitLogFailed
      | Some entries \<Rightarrow>
          if length entries = 0 then Inl NoCommitsFound
          else
            (case commitChoices newDate toISOString entries of
               Inl e \<Rightarrow> Inl e
             | Inr choices \<Rightarrow>
                 if from = to then Inl (InvalidSelection CommitSelection)
                 else (case run exec (ancestryCommand from to) of
                         Inl e \<Rightarrow> Inl e
                       | Inr out \<Rightarrow>
                           (let order = trim out in
                            if order = lit ''0'' then Inr \<lparr>from_rev = from, to_rev = to\<rparr>
                            else Inr \<lparr>from_rev = from, to_rev = to\<rparr>))))"

definition tagListCommand :: jsstring where
  "tagListCommand =
     lit ''git for-each-ref --sort=-creatordate --format '' @ [34] @
     lit ''%(refname:short) | %(creatordate:short) | %(subject)'' @ [34] @ lit '' refs/tags''"

definition tagLines :: "jsstring \<Rightarrow> jsstring list" where
  "tagLines raw = filter (\<lambda>l. l \<noteq> []) (split 10 raw)"

definition tagChoices :: "jsstring list \<Rightarrow> choice list" where
  "tagChoices lines =
     map (\<lambda>line. \<lparr>choiceName = line, choiceValue = firstPiece (lit '' | '') line\<rparr>) lines"

definition selectByTags :: "shell \<Rightarrow> jsstring \<Rightarrow> jsstring \<Rightarrow> error + revrange" where
  "selectByTags exec fromTag toTag =
     (case run exec tagListCommand of
        Inl e \<Rightarrow> Inl e
      | Inr raw \<Rightarrow>
          if length (tagLines raw) = 0 then Inl NoTagsFound
          else if fromTag = toTag then Inl (InvalidSelection TagSelection)
          else Inr \<lparr>from_rev = fromTag, to_rev = toTag\<rparr>)"

definition beforeCommand :: "jsstring \<Rightarrow> jsstring" where
  "beforeCommand stamp = lit ''git rev-list -1 --before='' @ [39] @ stamp @ [39] @ lit '' HEAD''"

text \<open>
  \<open>selectByTimeRange\<close>: \<open>parseDate\<close> is \<open>chrono.parseDate\<close> (a time stamp in
  milliseconds, or \<open>None\<close> for \<open>null\<close>), \<open>toISOString\<close> is the method of \<open>Date\<close>;
  \<open>start\<close> and \<open>end\<close> are the two answers typed at the prompt.
\<close>

definition selectByTimeRange ::
  "(jsstring \<Rightarrow> int option) \<Rightarrow> (int \<Rightarrow> jsstring) \<Rightarrow> shell \<Rightarrow> jsstring \<Rightarrow> jsstring
     \<Rightarrow> error + revrange" where
  "selectByTimeRange parseDate toISOString exec start end =
     (case (parseDate start, parseDate end) of
        (Some startParsed0, Some endParsed0) \<Rightarrow>
          (let (startParsed, endParsed) =
                 (if startParsed0 > endParsed0 then (endParsed0, startParsed0)
                  else (startParsed0, endParsed0));
               startISO = toISOString startParsed;
               endISO = toISOString endParsed
           in case run exec (beforeCommand endISO) of
                Inl e \<Rightarrow> Inl e
              | Inr out1 \<Rightarrow>
                  (case run exec (beforeCommand startISO) of
                     Inl e \<Rightarrow> Inl e
                   | Inr out2 \<Rightarrow>
                       (let to = trim out1; baseBeforeStart = trim out2 in
                        if to = [] \<or> baseBeforeStart = [] then Inl NoRevisionForTimestamp
                        else Inr \<lparr>from_rev = baseBeforeStart, to_rev = to\<rparr>)))
      | _ \<Rightarrow> Inl DateParseFailure)"

section \<open>History collection\<close>

definition logFormat :: jsstring where
  "logFormat = lit ''%h%x09%an%x09%ad%x09%s%x0a%b''"

definition logCommand :: "jsstring \<Rightarrow> jsstring \<Rightarrow> jsstring" where
  "logCommand from to =
     lit ''git log '' @ from @ lit ''..'' @ to @ lit '' --date=iso --pretty=format:'' @ [34] @
     logFormat @ [34]"

definition nameStatusCommand :: "jsstring \<Rightarrow> jsstring \<Rightarrow> jsstring" where
  "nameStatusCommand from to = lit ''git diff --name-status '' @ from @ lit ''..'' @ to"

definition statCommand :: "jsstring \<Rightarrow> jsstring \<Rightarrow> jsstring" where
  "statCommand from to = lit ''git diff --stat '' @ from @ lit ''..'' @ to"

text \<open>\<open>s.trim() || placeholder\<close>: the empty string is the only falsy string.\<close>

definition orElse :: "jsstring \<Rightarrow> jsstring \<Rightarrow> jsstring" where
  "orElse s placeholder = (if s = [] then placeholder else s)"

definition collectGitHistoryText :: "shell \<Rightarrow> revrange \<Rightarrow> error + jsstring" where
  "collectGitHistoryText exec rng =
     (let from = from_rev rng; to = to_rev rng in
      case run exec (logCommand from to) of
        Inl e \<Rightarrow> Inl e
      | Inr logText \<Rightarrow>
          (case run exec (nameStatusCommand from to) of
             Inl e \<Rightarrow> Inl e
           | Inr filesText \<Rightarrow>
               (case run exec (statCommand from to) of
                  Inl e \<Rightarrow> Inl e
                | Inr statsText \<Rightarrow>
                    Inr (join [10]
                      [lit ''# Git History'',
                       [],
                       lit ''## Commit Log'',
                       orElse (trim logText) (lit ''(No commits)''),
                       [],
                       lit ''## Changed Files (name-status)'',
                       orElse (trim filesText) (lit ''(No file changes)''),
                       [],
                       lit ''## Diff Stats'',
                       orElse (trim statsText) (lit ''(No stats)'')]))))"

section \<open>The completion service\<close>

text \<open>
  Values of the host language as \<open>JSON.parse\<close> produces them, and \<open>undefined\<close>. An
  object is the list of its own properties. A number is a rational; the code tests a
  number only for being zero.
\<close>

datatype jsvalue =
    JUndefined
  | JNull
  | JBool bool
  | JNum rat
  | JStr jsstring
  | JArr "jsvalue list"
  | JObj "(jsstring \<times> jsvalue) list"

text \<open>
  \<open>v?.name\<close> for the names \<open>choices\<close>, \<open>message\<close> and \<open>content\<close>, which no
  built-in prototype defines: the own property of an object, \<open>undefined\<close> otherwise.
\<close>

fun getProp :: "jsstring \<Rightarrow> jsvalue \<Rightarrow> jsvalue" where
  "getProp name (JObj props) = (case map_of props name of None \<Rightarrow> JUndefined | Some v \<Rightarrow> v)"
| "getProp name _ = JUndefined"

text \<open>\<open>v?.[0]\<close>: the first element of an array, the first code unit of a string.\<close>

fun getFirst :: "jsvalue \<Rightarrow> jsvalue" where
  "getFirst (JArr []) = JUndefined"
| "getFirst (JArr (v # _)) = v"
| "getFirst (JStr []) = JUndefined"
| "getFirst (JStr (c # _)) = JStr [c]"
| "getFirst (JObj props) = (case map_of props (lit ''0'') of None \<Rightarrow> JUndefined | Some v \<Rightarrow> v)"
| "getFirst _ = JUndefined"

fun truthy :: "jsvalue \<Rightarrow> bool" where
  "truthy JUndefined = False"
| "truthy JNull = False"
| "truthy (JBool b) = b"
| "truthy (JNum n) = (n \<noteq> 0)"
| "truthy (JStr s) = (s \<noteq> [])"
| "truthy (JArr _) = True"
| "truthy (JObj _) = True"

text \<open>\<open>data?.choices?.[0]?.message?.content\<close>\<close>

definition contentField :: "jsvalue \<Rightarrow> jsvalue" where
  "contentField data =
     getProp (lit ''content'') (getProp (lit ''message'') (getFirst (getProp (lit ''choices'') data)))"

record request =
  endpoint :: jsstring
  httpMethod :: jsstring
  headers :: "(jsstring \<times> jsstring) list"
  body :: jsvalue

text \<open>
  A response: its status line and the outcomes of \<open>res.text()\<close> and \<open>res.json()\<close>
  (\<open>None\<close> when the promise rejects). \<open>res.ok\<close> is true for a status from 200 to 299.
\<close>

record response =
  status :: nat
  statusText :: jsstring
  bodyText :: "jsstring option"
  bodyJson :: "jsvalue option"

definition ok :: "response \<Rightarrow> bool" where
  "ok res \<longleftrightarrow> 200 \<le> status res \<and> status res \<le> 299"

definition basePrompt :: "jsstring \<Rightarrow> jsstring" where
  "basePrompt historyMarkdown = join [10]
     [lit ''[INSTRUCTIONS]'',
      lit ''Task: Generate a changelog entry from the Git history. The response should strictly follow the structure below. Use only the information from the Git history.'',
      [],
      lit ''Output rules:'',
      lit ''- Output ONLY valid Markdown (no code block markers).'',
      lit ''- The structure must follow exactly this format:'',
      [],
      lit ''# <Heading summarizing the change>'',
      lit ''(Heading should be short and clear, e.g., '' @ [34] @ lit ''Adds Payout Details embedded component to the Account'' @ [34] @ lit '')'',
      [],
      lit ''## What'' @ [8217] @ lit ''s new'',
      lit ''<Brief description of what'' @ [8217] @ lit ''s newly introduced. Focus on new functionality, not internal details.>'',
      [],
      lit ''## Impact'',
      lit ''<Explain the practical effect on users, developers, or systems. Answer '' @ [8220] @ lit ''why this matters.'' @ [8221] @ lit ''>'',
      [],
      lit ''## Changes'',
      lit ''<List the most essential code changes, snippets, or file modifications very concisely. Avoid unnecessary detail.>'',
      lit ''List all the files which are changes and what changes were made'',
      lit ''Please give code snippets here, difference between the files, the markdown file should be as descriptive as possible'',
      lit ''---'',
      lit ''Git History:'',
      historyMarkdown]"

definition completionEndpoint :: jsstring where
  "completionEndpoint =
     lit ''https://salesassist.openai.azure.com/openai/deployments/gpt-4o-mini/chat/completions?api-version=2024-02-15-preview''"

definition completionRequest :: "jsstring \<Rightarrow> jsstring \<Rightarrow> request" where
  "completionRequest key historyMarkdown =
     \<lparr>endpoint = completionEndpoint,
      httpMethod = lit ''POST'',
      headers = [(lit ''Content-Type'', lit ''application/json''), (lit ''api-key'', key)],
      body = JObj
        [(lit ''messages'',
          JArr [JObj [(lit ''role'', JStr (lit ''user'')),
                      (lit ''content'', JStr (basePrompt historyMarkdown))]]),
         (lit ''temperature'', JNum (2 / 10)),
         (lit ''max_tokens'', JNum 1200)]\<rparr>"

text \<open>
  What the run does to the outside, in order: the masked prompt for the key, the requests
  sent, the server started on the site directory.
\<close>

datatype event =
    PromptedPassword
  | Fetched request
  | Served "jsstring list" nat

text \<open>
  \<open>callAzureOpenAI\<close>: \<open>apiKey\<close> is \<open>process.env.OPENAI_API_KEY\<close> (\<open>None\<close> when
  unset), \<open>typed\<close> is what the user types when the masked prompt is shown, \<open>fetch\<close>
  gives the response to a request (\<open>None\<close> when the request itself fails).
\<close>

definition callAzureOpenAI ::
  "jsstring option \<Rightarrow> jsstring \<Rightarrow> (request \<Rightarrow> response option) \<Rightarrow> jsstring
     \<Rightarrow> event list \<times> (error + jsstring)" where
  "callAzureOpenAI apiKey typed fetch historyMarkdown =
     (let absent = (case apiKey of None \<Rightarrow> True | Some k \<Rightarrow> k = []);
          shown = (if absent then [PromptedPassword] else []);
          key = (case apiKey of None \<Rightarrow> typed | Some k \<Rightarrow> if k = [] then typed else k)
      in if key = [] then (shown, Inl MissingCredential)
         else
           (let req = completionRequest key historyMarkdown in
            (shown @ [Fetched req],
             case fetch req of
               None \<Rightarrow> Inl FetchFailed
             | Some res \<Rightarrow>
                 if \<not> ok res then
                   (case bodyText res of
                      None \<Rightarrow> Inl BodyReadFailed
                    | Some text \<Rightarrow>
                        Inl (CompletionServiceError (status res) (statusText res) text))
                 else
                   (case bodyJson res of
                      None \<Rightarrow> Inl BodyReadFailed
                    | Some data \<Rightarrow>
                        (let c = contentField data;
                             content = (if truthy c then c else JStr [])
                         in case content of
                              JStr s \<Rightarrow> if trim s = [] then Inl EmptyCompletion else Inr s
                            | _ \<Rightarrow> Inl TypeError)))))"

section \<open>Files\<close>

text \<open>
  A path is the list of its components, \<open>path.join(p, name)\<close> appends one. The file
  system maps a path to what is there. The three calls of \<open>fs\<close> the code makes:
  \<open>mkdirSync\<close> needs the parent directory and a free name, \<open>writeFileSync\<close> needs the
  parent directory and replaces the content of a file.
\<close>

type_synonym path = "jsstring list"

datatype node = File jsstring | Dir

type_synonym files = "path \<Rightarrow> node option"

definition pathJoin :: "path \<Rightarrow> jsstring \<Rightarrow> path" where
  "pathJoin p name = p @ [name]"

definition existsSync :: "files \<Rightarrow> path \<Rightarrow> bool" where
  "existsSync fs p \<longleftrightarrow> fs p \<noteq> None"

definition mkdirSync :: "files \<Rightarrow> path \<Rightarrow> error + files" where
  "mkdirSync fs p =
     (if fs p \<noteq> None then Inl (FsError EEXIST)
      else (case fs (butlast p) of
              None \<Rightarrow> Inl (FsError ENOENT)
            | Some (File _) \<Rightarrow> Inl (FsError ENOTDIR)
            | Some Dir \<Rightarrow> Inr (fs(p \<mapsto> Dir))))"

definition writeFileSync :: "files \<Rightarrow> path \<Rightarrow> jsstring \<Rightarrow> error + files" where
  "writeFileSync fs p content =
     (case fs p of
        Some Dir \<Rightarrow> Inl (FsError EISDIR)
      | _ \<Rightarrow>
          (case fs (butlast p) of
             None \<Rightarrow> Inl (FsError ENOENT)
           | Some (File _) \<Rightarrow> Inl (FsError ENOTDIR)
           | Some Dir \<Rightarrow> Inr (fs(p \<mapsto> File content))))"

definition indexHtml :: jsstring where
  "indexHtml = join [10]
     [lit ''<!DOCTYPE html>'',
      lit ''<html lang='' @ [34] @ lit ''en'' @ [34] @ lit ''>'',
      lit ''<head>'',
      lit ''  <meta charset='' @ [34] @ lit ''UTF-8'' @ [34] @ lit '' />'',
      lit ''  <meta http-equiv='' @ [34] @ lit ''X-UA-Compatible'' @ [34] @ lit '' content='' @ [34] @ lit ''IE=edge'' @ [34] @ lit '' />'',
      lit ''  <meta name='' @ [34] @ lit ''viewport'' @ [34] @ lit '' content='' @ [34] @ lit ''width=device-width, initial-scale=1.0'' @ [34] @ lit '' />'',
      lit ''  <title>Changelog</title>'',
      lit ''  <link rel='' @ [34] @ lit ''stylesheet'' @ [34] @ lit '' href='' @ [34] @ lit ''//cdn.jsdelivr.net/npm/docsify@4/lib/themes/vue.css'' @ [34] @ lit '' />'',
      lit ''</head>'',
      lit ''<body>'',
      lit ''  <div id='' @ [34] @ lit ''app'' @ [34] @ lit ''></div>'',
      lit ''  <script>'',
      lit ''    window.$docsify = { name: '' @ [34] @ lit ''Changelog'' @ [34] @ lit '', loadSidebar: false, subMaxLevel: 2 };'',
      lit ''  </script>'',
      lit ''  <script src='' @ [34] @ lit ''//cdn.jsdelivr.net/npm/docsify@4'' @ [34] @ lit ''></script>'',
      lit ''</body>'',
      lit ''</html>'']"

text \<open>
  \<open>createDocsifySite\<close> returns the file system as it leaves it, also when a call of
  \<open>fs\<close> throws half way, and the site directory.
\<close>

definition createDocsifySite :: "path \<Rightarrow> jsstring \<Rightarrow> files \<Rightarrow> files \<times> (error + path)" where
  "createDocsifySite rootDir markdownContent fs =
     (let siteDir = pathJoin rootDir (lit ''.diffgen_site'') in
      case (if \<not> existsSync fs siteDir then mkdirSync fs siteDir else Inr fs) of
        Inl e \<Rightarrow> (fs, Inl e)
      | Inr fs1 \<Rightarrow>
          (let readmePath = pathJoin siteDir (lit ''README.md'') in
           case writeFileSync fs1 readmePath markdownContent of
             Inl e \<Rightarrow> (fs1, Inl e)
           | Inr fs2 \<Rightarrow>
               (let indexHtmlPath = pathJoin siteDir (lit ''index.html'') in
                if \<not> existsSync fs2 indexHtmlPath then
                  (case writeFileSync fs2 indexHtmlPath indexHtml of
                     Inl e \<Rightarrow> (fs2, Inl e)
                   | Inr fs3 \<Rightarrow> (fs3, Inr siteDir))
                else (fs2, Inr siteDir))))"

section \<open>The run\<close>

datatype mode = Tags | Commits | Time

text \<open>
  Everything a run reads from outside: the outcome of \<open>git rev-parse
  --is-inside-work-tree\<close>, the shell, the log, the answers given at the prompts, the date
  parser, the constructor and the method \<open>toISOString\<close> of \<open>Date\<close>, the environment
  variable and the completion service.
\<close>

record world =
  revparse :: "jsstring option"
  shell_of :: shell
  commitLog :: "log_entry list option"
  chosenMode :: mode
  chosenFrom :: jsstring
  chosenTo :: jsstring
  typedStart :: jsstring
  typedEnd :: jsstring
  chrono :: "jsstring \<Rightarrow> int option"
  dateOf :: "jsstring \<Rightarrow> int option"
  isoString :: "int \<Rightarrow> jsstring"
  envApiKey :: "jsstring option"
  typedKey :: jsstring
  service :: "request \<Rightarrow> response option"

definition ensureGitRepository :: "jsstring option \<Rightarrow> bool" where
  "ensureGitRepository outcome = (case outcome of None \<Rightarrow> False | Some _ \<Rightarrow> True)"

definition topLevelCommand :: jsstring where
  "topLevelCommand = lit ''git rev-parse --show-toplevel''"

text \<open>Lines 280 to 287 of \<open>main\<close>: the strategy chosen at the first prompt.\<close>

definition selectRange :: "world \<Rightarrow> error + revrange" where
  "selectRange w =
     (if chosenMode w = Tags then selectByTags (shell_of w) (chosenFrom w) (chosenTo w)
      else if chosenMode w = Commits then
        selectByCommits (commitLog w) (dateOf w) (isoString w) (shell_of w) (chosenFrom w)
          (chosenTo w)
      else selectByTimeRange (chrono w) (isoString w) (shell_of w) (typedStart w) (typedEnd w))"

text \<open>
  \<open>main\<close> with the handler of its rejection: the result is the file system after the
  run, the events of the run, and the error printed before \<open>process.exit(1)\<close> or the
  site directory handed to the server.
\<close>

definition main :: "world \<Rightarrow> files \<Rightarrow> files \<times> event list \<times> (error + path)" where
  "main w fs =
     (if \<not> ensureGitRepository (revparse w) then (fs, [], Inl NotAGitRepository)
      else
        case run (shell_of w) topLevelCommand of
          Inl e \<Rightarrow> (fs, [], Inl e)
        | Inr out \<Rightarrow>
            (let repoRoot = [trim out] in
             case selectRange w of
               Inl e \<Rightarrow> (fs, [], Inl e)
             | Inr rng \<Rightarrow>
                 (case collectGitHistoryText (shell_of w) rng of
                    Inl e \<Rightarrow> (fs, [], Inl e)
                  | Inr historyMarkdown \<Rightarrow>
                      (case callAzureOpenAI (envApiKey w) (typedKey w) (service w) historyMarkdown of
                         (evs, Inl e) \<Rightarrow> (fs, evs, Inl e)
                       | (evs, Inr changelogMarkdown) \<Rightarrow>
                           (let outPath = pathJoin repoRoot (lit ''CHANGELOG.generated.md'') in
                            case writeFileSync fs outPath changelogMarkdown of
                              Inl e \<Rightarrow> (fs, evs, Inl e)
                            | Inr fs1 \<Rightarrow>
                                (case createDocsifySite repoRoot changelogMarkdown fs1 of
                                   (fs2, Inl e) \<Rightarrow> (fs2, evs, Inl e)
                                 | (fs2, Inr siteDir) \<Rightarrow>
                                     (fs2, evs @ [Served siteDir 3000], Inr siteDir)))))))"

section \<open>A sample run\<close>

text \<open>
  A repository at \<open>/repo\<close> with the tags \<open>v1.0.0\<close> and \<open>v1.1.0\<close>, where \<open>v1.1.0\<close>
  adds the file \<open>a.txt\<close>; the user picks the tag strategy, \<open>v1.0.0\<close> and then
  \<open>v1.1.0\<close>; the key is in the environment and the service answers with a changelog.
\<close>

definition sampleShell :: shell where
  "sampleShell cmd =
     (if cmd = topLevelCommand then Some (lit ''/repo'' @ [10])
      else if cmd = tagListCommand then
        Some (lit ''v1.1.0 | 2024-06-01 | Add a.txt'' @ [10] @
              lit ''v1.0.0 | 2024-05-01 | Initial'' @ [10])
      else if cmd = logCommand (lit ''v1.0.0'') (lit ''v1.1.0'') then
        Some (lit ''4f2a9c1'' @ [9] @ lit ''Ann'' @ [9] @ lit ''2024-06-01 10:00:00 +0000'' @ [9] @
              lit ''Add a.txt'' @ [10])
      else if cmd = nameStatusCommand (lit ''v1.0.0'') (lit ''v1.1.0'') then
        Some (lit ''A'' @ [9] @ lit ''a.txt'' @ [10])
      else if cmd = statCommand (lit ''v1.0.0'') (lit ''v1.1.0'') then
        Some (lit '' a.txt | 1 +'' @ [10] @ lit '' 1 file changed, 1 insertion(+)'' @ [10])
      else None)"

definition sampleCompletion :: jsvalue where
  "sampleCompletion =
     JObj [(lit ''choices'',
            JArr [JObj [(lit ''message'',
                         JObj [(lit ''role'', JStr (lit ''assistant'')),
                               (lit ''content'', JStr (lit ''# Adds a.txt''))])]])]"

definition sampleService :: "request \<Rightarrow> response option" where
  "sampleService req =
     Some \<lparr>status = 200, statusText = lit ''OK'', bodyText = None,
           bodyJson = Some sampleCompletion\<rparr>"

definition sampleWorld :: world where
  "sampleWorld =
     \<lparr>revparse = Some (lit ''true'' @ [10]),
      shell_of = sampleShell,
      commitLog = None,
      chosenMode = Tags,
      chosenFrom = lit ''v1.0.0'',
      chosenTo = lit ''v1.1.0'',
      typedStart = [],
      typedEnd = [],
      chrono = (\<lambda>text. None),
      dateOf = (\<lambda>text. None),
      isoString = (\<lambda>stamp. []),
      envApiKey = Some (lit ''sk-sample''),
      typedKey = [],
      service = sampleService\<rparr>"

definition sampleFiles :: files where
  "sampleFiles = [[lit ''/repo''] \<mapsto> Dir]"

text \<open>
  The files after a first run on \<open>sampleFiles\<close> with the changelog of the sample run,
  and a site whose \<open>index.html\<close> has been edited by hand.
\<close>

definition sampleSiteFiles :: files where
  "sampleSiteFiles =
     sampleFiles
       (pathJoin [lit ''/repo''] (lit ''.diffgen_site'') \<mapsto> Dir,
        pathJoin (pathJoin [lit ''/repo''] (lit ''.diffgen_site'')) (lit ''README.md'') \<mapsto>
          File (lit ''# Adds a.txt''),
        pathJoin (pathJoin [lit ''/repo''] (lit ''.diffgen_site'')) (lit ''index.html'') \<mapsto>
          File indexHtml)"

definition editedSiteFiles :: files where
  "editedSiteFiles =
     sampleFiles
       (pathJoin [lit ''/repo''] (lit ''.diffgen_site'') \<mapsto> Dir,
        pathJoin (pathJoin [lit ''/repo''] (lit ''.diffgen_site'')) (lit ''index.html'') \<mapsto>
          File (lit ''<html>edited</html>''))"

text \<open>
  A log of two commits, with the constructor and \<open>toISOString\<close> of \<open>Date\<close> on their
  dates, and two shells that differ in the ancestry query of the two commits only: on
  the first the pipeline prints a count, on the second the pipeline fails (a system with
  no \<open>wc\<close>), so that \<open>execSync\<close> throws.
\<close>

definition sampleEntries :: "log_entry list" where
  "sampleEntries =
     [\<lparr>hash = lit ''4f2a9c1'', date = lit ''2024-06-01T10:00:00+00:00'',
       message_of = lit ''Add a.txt''\<rparr>,
      \<lparr>hash = lit ''9e8d7c6'', date = lit ''2024-05-01T09:00:00+00:00'',
       message_of = lit ''Initial''\<rparr>]"

definition sampleNewDate :: "jsstring \<Rightarrow> int option" where
  "sampleNewDate text =
     (if text = lit ''2024-06-01T10:00:00+00:00'' then Some 1717236000000
      else if text = lit ''2024-05-01T09:00:00+00:00'' then Some 1714554000000
      else None)"

definition sampleToISOString :: "int \<Rightarrow> jsstring" where
  "sampleToISOString stamp =
     (if stamp = 1717236000000 then lit ''2024-06-01T10:00:00.000Z''
      else lit ''2024-05-01T09:00:00.000Z'')"

definition countingShell :: shell where
  "countingShell cmd =
     (if cmd = ancestryCommand (lit ''9e8d7c6'') (lit ''4f2a9c1'') then Some (lit ''1'' @ [10])
      else sampleShell cmd)"

definition shellWithoutWc :: shell where
  "shellWithoutWc cmd =
     (if cmd = ancestryCommand (lit ''9e8d7c6'') (lit ''4f2a9c1'') then None
      else sampleShell cmd)"

text \<open>
  The history text read as Markdown: a line that begins with \<open>##\<close> and a space opens a
  headed section.
\<close>

definition isHeadingLine :: "jsstring \<Rightarrow> bool" where
  "isHeadingLine l \<longleftrightarrow> take 3 l = lit ''## ''"

definition headingLines :: "jsstring \<Rightarrow> jsstring list" where
  "headingLines text = filter isHeadingLine (split 10 text)"

text \<open>
  The sample repository with a commit whose body is the line \<open>## Diff Stats\<close>.
\<close>

definition headedBodyShell :: shell where
  "headedBodyShell cmd =
     (if cmd = logCommand (lit ''v1.0.0'') (lit ''v1.1.0'') then
        Some (lit ''4f2a9c1'' @ [9] @ lit ''Ann'' @ [9] @ lit ''2024-06-01 10:00:00 +0000'' @ [9] @
              lit ''Add a.txt'' @ [10] @ lit ''## Diff Stats'' @ [10])
      else if cmd = nameStatusCommand (lit ''v1.0.0'') (lit ''v1.1.0'') then
        Some (lit ''A'' @ [9] @ lit ''a.txt'' @ [10])
      else if cmd = statCommand (lit ''v1.0.0'') (lit ''v1.1.0'') then
        Some (lit '' a.txt | 1 +'' @ [10] @ lit '' 1 file changed, 1 insertion(+)'' @ [10])
      else None)"

section \<open>Facts about strings, paths and files\<close>

lemma all_dropWhile: "(\<forall>x\<in>set (dropWhile P xs). P x) \<longleftrightarrow> (\<forall>x\<in>set xs. P x)"
  by (induction xs) auto

lemma trim_Nil_iff: "trim s = [] \<longleftrightarrow> (\<forall>c\<in>set s. isWhiteSpace c)"
  by (simp add: trim_def all_dropWhile)

lemma lit_eq_Nil [simp]: "lit s = [] \<longleftrightarrow> s = []"
  by (simp add: lit_def)

lemma names_distinct:
  "lit ''README.md'' \<noteq> lit ''index.html''"
  "lit ''CHANGELOG.generated.md'' \<noteq> lit ''.diffgen_site''"
  by (simp_all add: lit_def)

lemma butlast_pathJoin [simp]: "butlast (pathJoin p n) = p"
  by (simp add: pathJoin_def)

lemma pathJoin_eq [simp]: "pathJoin p n = pathJoin q m \<longleftrightarrow> p = q \<and> n = m"
  by (simp add: pathJoin_def)

lemma pathJoin_neq [simp]:
  "pathJoin p n \<noteq> p" "p \<noteq> pathJoin p n"
  "pathJoin (pathJoin p a) b \<noteq> pathJoin p c" "pathJoin p c \<noteq> pathJoin (pathJoin p a) b"
  by (auto simp add: pathJoin_def)

lemma writeFileSync_Inr:
  "writeFileSync fs p c = Inr fs' \<Longrightarrow>
     fs' = fs(p \<mapsto> File c) \<and> fs (butlast p) = Some Dir \<and> fs p \<noteq> Some Dir"
  by (auto simp add: writeFileSync_def split: option.splits node.splits)

lemma mkdirSync_Inr:
  "mkdirSync fs p = Inr fs' \<Longrightarrow> fs' = fs(p \<mapsto> Dir) \<and> fs p = None"
  by (auto simp add: mkdirSync_def split: option.splits node.splits if_splits)

text \<open>\<open>createDocsifySite\<close> touches three paths only.\<close>

lemma createDocsifySite_frame:
  assumes "createDocsifySite rootDir md fs = (fs', r)"
    and "p \<noteq> pathJoin rootDir (lit ''.diffgen_site'')"
    and "p \<noteq> pathJoin (pathJoin rootDir (lit ''.diffgen_site'')) (lit ''README.md'')"
    and "p \<noteq> pathJoin (pathJoin rootDir (lit ''.diffgen_site'')) (lit ''index.html'')"
  shows "fs' p = fs p"
  using assms
  by (auto simp add: createDocsifySite_def Let_def existsSync_def
      split: sum.splits if_splits dest!: writeFileSync_Inr mkdirSync_Inr)

lemma createDocsifySite_index_kept:
  assumes "createDocsifySite rootDir md fs = (fs', r)"
    and "existsSync fs (pathJoin (pathJoin rootDir (lit ''.diffgen_site'')) (lit ''index.html''))"
  shows "fs' (pathJoin (pathJoin rootDir (lit ''.diffgen_site'')) (lit ''index.html'')) =
         fs (pathJoin (pathJoin rootDir (lit ''.diffgen_site'')) (lit ''index.html''))"
  using assms names_distinct(1)
  by (auto simp add: createDocsifySite_def Let_def existsSync_def
      split: sum.splits if_splits dest!: writeFileSync_Inr mkdirSync_Inr)

lemma createDocsifySite_success:
  assumes "createDocsifySite rootDir md fs = (fs', Inr dir)"
  shows "dir = pathJoin rootDir (lit ''.diffgen_site'')"
    and "fs' dir = Some Dir"
    and "fs' (pathJoin dir (lit ''README.md'')) = Some (File md)"
    and "fs' (pathJoin dir (lit ''index.html'')) \<noteq> None"
  using assms names_distinct(1)
  by (auto simp add: createDocsifySite_def Let_def existsSync_def
      split: sum.splits if_splits dest!: writeFileSync_Inr mkdirSync_Inr)

section \<open>Properties of range resolution\<close>

text \<open>
  The commit and the tag strategy refuse two equal answers, whatever the shell prints;
  the commit strategy fails before any prompt when the choices cannot be built.
\<close>

lemma selectByCommits_same:
  "entries \<noteq> [] \<Longrightarrow> commitChoices newDate toISOString entries = Inr choices \<Longrightarrow>
     selectByCommits (Some entries) newDate toISOString exec a a =
       Inl (InvalidSelection CommitSelection)"
  by (simp add: selectByCommits_def)

lemma selectByCommits_invalid_date:
  "entries \<noteq> [] \<Longrightarrow> commitChoices newDate toISOString entries = Inl e \<Longrightarrow>
     selectByCommits (Some entries) newDate toISOString exec a b = Inl e"
  by (simp add: selectByCommits_def)

lemma commitChoices_error: "commitChoices newDate toISOString entries = Inl e \<Longrightarrow> e = RangeError"
  by (induction entries) (auto split: option.splits sum.splits)

lemma selectByTags_same:
  "exec tagListCommand = Some raw \<Longrightarrow> tagLines raw \<noteq> [] \<Longrightarrow>
     selectByTags exec a a = Inl (InvalidSelection TagSelection)"
  by (simp add: selectByTags_def run_def)

text \<open>
  Claim C1: for every strategy, a range whose two endpoints are identical is refused with
  \<open>InvalidSelection\<close>, so that every range returned has \<open>from \<noteq> to\<close>. The time-interval
  strategy has no such check: in a repository whose newest commit \<open>4f2a9c1\<close> is older
  than both dates, both boundary queries print that commit, and \<open>selectByTimeRange\<close>
  returns the range from \<open>4f2a9c1\<close> to \<open>4f2a9c1\<close>.
\<close>

theorem selectByTimeRange_same_boundary:
  "selectByTimeRange
     (\<lambda>text. if text = lit ''2024-05-01'' then Some 1714521600000
             else if text = lit ''2024-06-01'' then Some 1717200000000 else None)
     (\<lambda>stamp. if stamp = 1714521600000 then lit ''2024-05-01T00:00:00.000Z''
              else lit ''2024-06-01T00:00:00.000Z'')
     (\<lambda>cmd. Some (lit ''4f2a9c1'' @ [10]))
     (lit ''2024-05-01'') (lit ''2024-06-01'')
   = Inr \<lparr>from_rev = lit ''4f2a9c1'', to_rev = lit ''4f2a9c1''\<rparr>"
  by (simp add: selectByTimeRange_def run_def trim_def lit_def isWhiteSpace_def Let_def)

text \<open>
  Claim C7 says that in the commit strategy the result does not depend on the outcome
  of the ancestry query. It does when the query itself fails: \<open>execSync\<close> is called
  with no handler, so on a system where the pipeline fails the commit strategy ends
  with the error of the command, and where the pipeline prints a count the same two
  answers give the range.
\<close>

theorem selectByCommits_ancestry_failure:
  "selectByCommits (Some sampleEntries) sampleNewDate sampleToISOString countingShell
     (lit ''9e8d7c6'') (lit ''4f2a9c1'') =
     Inr \<lparr>from_rev = lit ''9e8d7c6'', to_rev = lit ''4f2a9c1''\<rparr>
   \<and> selectByCommits (Some sampleEntries) sampleNewDate sampleToISOString shellWithoutWc
     (lit ''9e8d7c6'') (lit ''4f2a9c1'') =
     Inl (CommandFailed (ancestryCommand (lit ''9e8d7c6'') (lit ''4f2a9c1'')))"
proof -
  have built: "\<exists>choices. commitChoices sampleNewDate sampleToISOString sampleEntries = Inr choices"
    by (simp add: sampleEntries_def sampleNewDate_def)
  have distinct: "lit ''9e8d7c6'' \<noteq> lit ''4f2a9c1''"
    by (simp add: lit_def)
  have filled: "length sampleEntries \<noteq> 0"
    by (simp add: sampleEntries_def)
  show ?thesis
    using built distinct filled
    by (auto simp add: selectByCommits_def run_def countingShell_def shellWithoutWc_def Let_def)
qed

text \<open>
  Claim C7, amended: in the tag and in the commit strategy, two distinct answers \<open>a\<close>
  (FROM) and \<open>b\<close> (TO) taken from the choices are never reordered. The tag strategy
  returns the range from \<open>a\<close> to \<open>b\<close>. The commit strategy returns the range from \<open>a\<close>
  to \<open>b\<close> whenever the ancestry query completes, whatever it prints, and fails with
  the error of the command when the ancestry query itself fails.
\<close>

theorem select_distinct_unchanged:
  assumes "a \<noteq> b"
  shows "(exec tagListCommand = Some raw \<and>
          a \<in> set (map choiceValue (tagChoices (tagLines raw))) \<and>
          b \<in> set (map choiceValue (tagChoices (tagLines raw))) \<longrightarrow>
            selectByTags exec a b = Inr \<lparr>from_rev = a, to_rev = b\<rparr>)
       \<and> (commitChoices newDate toISOString entries = Inr choices \<and>
          a \<in> set (map choiceValue choices) \<and> b \<in> set (map choiceValue choices) \<longrightarrow>
            selectByCommits (Some entries) newDate toISOString exec a b =
              (case exec (ancestryCommand a b) of
                 None \<Rightarrow> Inl (CommandFailed (ancestryCommand a b))
               | Some out \<Rightarrow> Inr \<lparr>from_rev = a, to_rev = b\<rparr>))"
proof -
  have tags: "selectByTags exec a b = Inr \<lparr>from_rev = a, to_rev = b\<rparr>"
    if "exec tagListCommand = Some raw"
      and "a \<in> set (map choiceValue (tagChoices (tagLines raw)))"
    using that assms by (auto simp add: selectByTags_def run_def tagChoices_def)
  have commits: "selectByCommits (Some entries) newDate toISOString exec a b =
      (case exec (ancestryCommand a b) of
         None \<Rightarrow> Inl (CommandFailed (ancestryCommand a b))
       | Some out \<Rightarrow> Inr \<lparr>from_rev = a, to_rev = b\<rparr>)"
    if built: "commitChoices newDate toISOString entries = Inr choices"
      and chosen: "a \<in> set (map choiceValue choices)"
  proof -
    have "entries \<noteq> []"
      using built chosen by (cases entries) auto
    then show ?thesis
      using built assms
      by (simp add: selectByCommits_def run_def Let_def split: option.splits)
  qed
  from tags commits show ?thesis by blast
qed

theorem select_distinct_unchanged_witness:
  "selectByTags sampleShell (lit ''v1.0.0'') (lit ''v1.1.0'') =
     Inr \<lparr>from_rev = lit ''v1.0.0'', to_rev = lit ''v1.1.0''\<rparr>
   \<and> selectByCommits (Some sampleEntries) sampleNewDate sampleToISOString
       (\<lambda>cmd. Some (lit ''0'' @ [10])) (lit ''9e8d7c6'') (lit ''4f2a9c1'') =
     Inr \<lparr>from_rev = lit ''9e8d7c6'', to_rev = lit ''4f2a9c1''\<rparr>
   \<and> selectByCommits (Some sampleEntries) sampleNewDate sampleToISOString
       (\<lambda>cmd. Some (lit ''1'' @ [10])) (lit ''9e8d7c6'') (lit ''4f2a9c1'') =
     Inr \<lparr>from_rev = lit ''9e8d7c6'', to_rev = lit ''4f2a9c1''\<rparr>
   \<and> selectByCommits (Some sampleEntries) sampleNewDate sampleToISOString
       (\<lambda>cmd. None) (lit ''9e8d7c6'') (lit ''4f2a9c1'') =
     Inl (CommandFailed (ancestryCommand (lit ''9e8d7c6'') (lit ''4f2a9c1'')))"
proof -
  let ?raw = "lit ''v1.1.0 | 2024-06-01 | Add a.txt'' @ [10] @
              lit ''v1.0.0 | 2024-05-01 | Initial'' @ [10]"
  let ?choices =
    "[\<lparr>choiceName = lit ''4f2a9c1'' @ lit ''  '' @ lit ''2024-06-01'' @ lit ''  '' @
         lit ''Add a.txt'', choiceValue = lit ''4f2a9c1''\<rparr>,
      \<lparr>choiceName = lit ''9e8d7c6'' @ lit ''  '' @ lit ''2024-05-01'' @ lit ''  '' @
         lit ''Initial'', choiceValue = lit ''9e8d7c6''\<rparr>]"
  have tags: "lit ''v1.0.0'' \<noteq> lit ''v1.1.0''"
    by (simp add: lit_def)
  have raw: "sampleShell tagListCommand = Some ?raw"
    by (simp add: sampleShell_def tagListCommand_def topLevelCommand_def lit_def)
  have picked: "map choiceValue (tagChoices (tagLines ?raw)) = [lit ''v1.1.0'', lit ''v1.0.0'']"
    by (simp add: tagChoices_def tagLines_def lit_def)
  have from_tag: "lit ''v1.0.0'' \<in> set (map choiceValue (tagChoices (tagLines ?raw)))"
    and to_tag: "lit ''v1.1.0'' \<in> set (map choiceValue (tagChoices (tagLines ?raw)))"
    unfolding picked by simp_all
  have commits: "lit ''9e8d7c6'' \<noteq> lit ''4f2a9c1''"
    by (simp add: lit_def)
  have built: "commitChoices sampleNewDate sampleToISOString sampleEntries = Inr ?choices"
    by (simp add: sampleEntries_def sampleNewDate_def sampleToISOString_def lit_def)
  have from_commit: "lit ''9e8d7c6'' \<in> set (map choiceValue ?choices)"
    and to_commit: "lit ''4f2a9c1'' \<in> set (map choiceValue ?choices)"
    by simp_all
  have first: "selectByTags sampleShell (lit ''v1.0.0'') (lit ''v1.1.0'') =
          Inr \<lparr>from_rev = lit ''v1.0.0'', to_rev = lit ''v1.1.0''\<rparr>"
    using select_distinct_unchanged [OF tags, where exec = sampleShell and raw = ?raw]
      raw from_tag to_tag
    by blast
  have outcome: "selectByCommits (Some sampleEntries) sampleNewDate sampleToISOString exec
       (lit ''9e8d7c6'') (lit ''4f2a9c1'') =
       (case exec (ancestryCommand (lit ''9e8d7c6'') (lit ''4f2a9c1'')) of
          None \<Rightarrow> Inl (CommandFailed (ancestryCommand (lit ''9e8d7c6'') (lit ''4f2a9c1'')))
        | Some out \<Rightarrow> Inr \<lparr>from_rev = lit ''9e8d7c6'', to_rev = lit ''4f2a9c1''\<rparr>)" for exec
    using select_distinct_unchanged [OF commits, where entries = sampleEntries
        and newDate = sampleNewDate and toISOString = sampleToISOString and choices = ?choices
        and exec = exec] built from_commit to_commit
    by blast
  have second: "selectByCommits (Some sampleEntries) sampleNewDate sampleToISOString
       (\<lambda>cmd. Some (lit ''0'' @ [10])) (lit ''9e8d7c6'') (lit ''4f2a9c1'') =
     Inr \<lparr>from_rev = lit ''9e8d7c6'', to_rev = lit ''4f2a9c1''\<rparr>"
    by (simp add: outcome)
  have third: "selectByCommits (Some sampleEntries) sampleNewDate sampleToISOString
       (\<lambda>cmd. Some (lit ''1'' @ [10])) (lit ''9e8d7c6'') (lit ''4f2a9c1'') =
     Inr \<lparr>from_rev = lit ''9e8d7c6'', to_rev = lit ''4f2a9c1''\<rparr>"
    by (simp add: outcome)
  have fourth: "selectByCommits (Some sampleEntries) sampleNewDate sampleToISOString
       (\<lambda>cmd. None) (lit ''9e8d7c6'') (lit ''4f2a9c1'') =
     Inl (CommandFailed (ancestryCommand (lit ''9e8d7c6'') (lit ''4f2a9c1'')))"
    by (simp add: outcome)
  from first second third fourth show ?thesis by blast
qed

text \<open>
  Claim C5: in the time-interval strategy, when both texts parse and the start \<open>s\<close> is
  later than the end \<open>e\<close>, the two are swapped before the boundary queries run: TO is
  the boundary of the later time \<open>s\<close> and FROM the boundary of the earlier time \<open>e\<close>,
  and entering the two dates in the other order gives the same outcome.
\<close>

theorem selectByTimeRange_swaps:
  assumes "parseDate a = Some s" and "parseDate b = Some e" and "e < s"
  shows "selectByTimeRange parseDate toISOString exec a b =
           selectByTimeRange parseDate toISOString exec b a
         \<and> selectByTimeRange parseDate toISOString exec a b =
             (case run exec (beforeCommand (toISOString s)) of
                Inl err \<Rightarrow> Inl err
              | Inr later \<Rightarrow>
                  (case run exec (beforeCommand (toISOString e)) of
                     Inl err \<Rightarrow> Inl err
                   | Inr earlier \<Rightarrow>
                       if trim later = [] \<or> trim earlier = [] then Inl NoRevisionForTimestamp
                       else Inr \<lparr>from_rev = trim earlier, to_rev = trim later\<rparr>))"
  using assms by (simp add: selectByTimeRange_def Let_def split: sum.splits)

theorem selectByTimeRange_swaps_witness:
  "selectByTimeRange
     (\<lambda>text. if text = lit ''2024-05-01'' then Some 1714521600000
             else if text = lit ''2024-06-01'' then Some 1717200000000 else None)
     (\<lambda>stamp. if stamp = 1714521600000 then lit ''2024-05-01T00:00:00.000Z''
              else lit ''2024-06-01T00:00:00.000Z'')
     (\<lambda>cmd. if cmd = beforeCommand (lit ''2024-05-01T00:00:00.000Z'')
            then Some (lit ''9e8d7c6'' @ [10]) else Some (lit ''4f2a9c1'' @ [10]))
     (lit ''2024-06-01'') (lit ''2024-05-01'')
   = Inr \<lparr>from_rev = lit ''9e8d7c6'', to_rev = lit ''4f2a9c1''\<rparr>
   \<and> selectByTimeRange
     (\<lambda>text. if text = lit ''2024-05-01'' then Some 1714521600000
             else if text = lit ''2024-06-01'' then Some 1717200000000 else None)
     (\<lambda>stamp. if stamp = 1714521600000 then lit ''2024-05-01T00:00:00.000Z''
              else lit ''2024-06-01T00:00:00.000Z'')
     (\<lambda>cmd. if cmd = beforeCommand (lit ''2024-05-01T00:00:00.000Z'')
            then Some (lit ''9e8d7c6'' @ [10]) else Some (lit ''4f2a9c1'' @ [10]))
     (lit ''2024-05-01'') (lit ''2024-06-01'')
   = Inr \<lparr>from_rev = lit ''9e8d7c6'', to_rev = lit ''4f2a9c1''\<rparr>"
proof -
  let ?parse = "\<lambda>text. if text = lit ''2024-05-01'' then Some (1714521600000 :: int)
             else if text = lit ''2024-06-01'' then Some 1717200000000 else None"
  let ?iso = "\<lambda>stamp :: int. if stamp = 1714521600000 then lit ''2024-05-01T00:00:00.000Z''
              else lit ''2024-06-01T00:00:00.000Z''"
  let ?exec = "\<lambda>cmd. if cmd = beforeCommand (lit ''2024-05-01T00:00:00.000Z'')
            then Some (lit ''9e8d7c6'' @ [10]) else Some (lit ''4f2a9c1'' @ [10])"
  have p1: "?parse (lit ''2024-06-01'') = Some 1717200000000"
    by (simp add: lit_def)
  have p2: "?parse (lit ''2024-05-01'') = Some 1714521600000"
    by simp
  have lt: "(1714521600000 :: int) < 1717200000000"
    by simp
  note swaps = selectByTimeRange_swaps [where parseDate = ?parse and toISOString = ?iso
      and exec = ?exec, OF p1 p2 lt]
  have outcome:
    "(case run ?exec (beforeCommand (?iso 1717200000000)) of
        Inl err \<Rightarrow> Inl err
      | Inr later \<Rightarrow>
          (case run ?exec (beforeCommand (?iso 1714521600000)) of
             Inl err \<Rightarrow> Inl err
           | Inr earlier \<Rightarrow>
               if trim later = [] \<or> trim earlier = [] then Inl NoRevisionForTimestamp
               else Inr \<lparr>from_rev = trim earlier, to_rev = trim later\<rparr>)) =
     Inr \<lparr>from_rev = lit ''9e8d7c6'', to_rev = lit ''4f2a9c1''\<rparr>"
    by (simp add: run_def beforeCommand_def trim_def isWhiteSpace_def lit_def)
  have first: "selectByTimeRange ?parse ?iso ?exec (lit ''2024-06-01'') (lit ''2024-05-01'') =
      Inr \<lparr>from_rev = lit ''9e8d7c6'', to_rev = lit ''4f2a9c1''\<rparr>"
    by (rule trans [OF swaps [THEN conjunct2] outcome])
  have second: "selectByTimeRange ?parse ?iso ?exec (lit ''2024-05-01'') (lit ''2024-06-01'') =
      Inr \<lparr>from_rev = lit ''9e8d7c6'', to_rev = lit ''4f2a9c1''\<rparr>"
    by (rule trans [OF swaps [THEN conjunct1, symmetric] first])
  from first second show ?thesis by (rule conjI)
qed

section \<open>Properties of history collection\<close>

text \<open>
  Lines of a text that is joined from pieces, and the heading lines of the history text
  when no line of a query's output is itself a heading line.
\<close>

lemma split_not_Nil: "split sep s \<noteq> []"
  by (induction s) (auto split: list.splits)

lemma split_append: "split sep (a @ sep # b) = split sep a @ split sep b"
proof (induction a)
  case Nil
  show ?case by simp
next
  case (Cons c cs)
  obtain x xs where pieces: "split sep cs = x # xs"
    using split_not_Nil [of sep cs] by (cases "split sep cs") auto
  show ?case using Cons pieces by simp
qed

lemma split_join:
  "xs \<noteq> [] \<Longrightarrow> split sep (join [sep] xs) = concat (map (split sep) xs)"
proof (induction xs)
  case Nil
  then show ?case by simp
next
  case (Cons x xs)
  show ?case
  proof (cases xs)
    case Nil
    then show ?thesis by simp
  next
    case (Cons y ys)
    with Cons.IH have "split sep (join [sep] (y # ys)) = concat (map (split sep) (y # ys))"
      by simp
    then show ?thesis
      using Cons by (simp add: split_append del: split.simps)
  qed
qed

lemma collectGitHistoryText_heading_lines:
  assumes "collectGitHistoryText exec r = Inr historyText"
    and "exec (logCommand (from_rev r) (to_rev r)) = Some logText"
    and "exec (nameStatusCommand (from_rev r) (to_rev r)) = Some filesText"
    and "exec (statCommand (from_rev r) (to_rev r)) = Some statsText"
    and "\<forall>l\<in>set (split 10 (trim logText)). \<not> isHeadingLine l"
    and "\<forall>l\<in>set (split 10 (trim filesText)). \<not> isHeadingLine l"
    and "\<forall>l\<in>set (split 10 (trim statsText)). \<not> isHeadingLine l"
  shows "headingLines historyText =
           [lit ''## Commit Log'', lit ''## Changed Files (name-status)'', lit ''## Diff Stats'']"
proof -
  have body: "filter isHeadingLine (split 10 (orElse (trim s) (lit p))) = []"
    if "\<forall>l\<in>set (split 10 (trim s)). \<not> isHeadingLine l"
      and "filter isHeadingLine (split 10 (lit p)) = []" for s p
    using that by (auto simp add: orElse_def filter_empty_conv)
  have b1: "filter isHeadingLine (split 10 (orElse (trim logText) (lit ''(No commits)''))) = []"
    using assms(5) by (rule body) (simp add: lit_def isHeadingLine_def)
  have b2: "filter isHeadingLine (split 10 (orElse (trim filesText) (lit ''(No file changes)''))) = []"
    using assms(6) by (rule body) (simp add: lit_def isHeadingLine_def)
  have b3: "filter isHeadingLine (split 10 (orElse (trim statsText) (lit ''(No stats)''))) = []"
    using assms(7) by (rule body) (simp add: lit_def isHeadingLine_def)
  have title: "filter isHeadingLine (split 10 (lit ''# Git History'')) = []"
    by (simp add: lit_def isHeadingLine_def)
  have h1: "filter isHeadingLine (split 10 (lit ''## Commit Log'')) = [lit ''## Commit Log'']"
    by (simp add: lit_def isHeadingLine_def)
  have h2: "filter isHeadingLine (split 10 (lit ''## Changed Files (name-status)'')) =
      [lit ''## Changed Files (name-status)'']"
    by (simp add: lit_def isHeadingLine_def)
  have h3: "filter isHeadingLine (split 10 (lit ''## Diff Stats'')) = [lit ''## Diff Stats'']"
    by (simp add: lit_def isHeadingLine_def)
  have blank: "filter isHeadingLine (split 10 []) = []"
    by (simp add: lit_def isHeadingLine_def)
  have "historyText = join [10]
      [lit ''# Git History'', [], lit ''## Commit Log'',
       orElse (trim logText) (lit ''(No commits)''), [],
       lit ''## Changed Files (name-status)'',
       orElse (trim filesText) (lit ''(No file changes)''), [],
       lit ''## Diff Stats'', orElse (trim statsText) (lit ''(No stats)'')]"
    using assms(1-4) by (simp add: collectGitHistoryText_def run_def Let_def del: join.simps)
  then have "split 10 historyText = concat (map (split 10)
      [lit ''# Git History'', [], lit ''## Commit Log'',
       orElse (trim logText) (lit ''(No commits)''), [],
       lit ''## Changed Files (name-status)'',
       orElse (trim filesText) (lit ''(No file changes)''), [],
       lit ''## Diff Stats'', orElse (trim statsText) (lit ''(No stats)'')])"
    by (simp only: split_join [OF list.distinct(2)])
  then show ?thesis
    using b1 b2 b3 title h1 h2 h3 blank by (simp add: headingLines_def del: split.simps)
qed

text \<open>
  Claim C2 says that the history text has exactly three headed sections, in the order
  commit log, changed files, diff statistics, for every range. The output of a query is
  embedded as it is: with a commit whose body is the line \<open>## Diff Stats\<close> the text has
  four heading lines, and \<open>Diff Stats\<close> comes before \<open>Changed Files\<close>.
\<close>

theorem collectGitHistoryText_fourth_heading:
  "collectGitHistoryText headedBodyShell \<lparr>from_rev = lit ''v1.0.0'', to_rev = lit ''v1.1.0''\<rparr> =
     Inr (lit ''# Git History'' @ [10] @ [10] @
          lit ''## Commit Log'' @ [10] @
          lit ''4f2a9c1'' @ [9] @ lit ''Ann'' @ [9] @ lit ''2024-06-01 10:00:00 +0000'' @ [9] @
          lit ''Add a.txt'' @ [10] @ lit ''## Diff Stats'' @ [10] @ [10] @
          lit ''## Changed Files (name-status)'' @ [10] @ lit ''A'' @ [9] @ lit ''a.txt'' @
          [10] @ [10] @
          lit ''## Diff Stats'' @ [10] @
          lit ''a.txt | 1 +'' @ [10] @ lit '' 1 file changed, 1 insertion(+)'')
   \<and> headingLines
        (lit ''# Git History'' @ [10] @ [10] @
          lit ''## Commit Log'' @ [10] @
          lit ''4f2a9c1'' @ [9] @ lit ''Ann'' @ [9] @ lit ''2024-06-01 10:00:00 +0000'' @ [9] @
          lit ''Add a.txt'' @ [10] @ lit ''## Diff Stats'' @ [10] @ [10] @
          lit ''## Changed Files (name-status)'' @ [10] @ lit ''A'' @ [9] @ lit ''a.txt'' @
          [10] @ [10] @
          lit ''## Diff Stats'' @ [10] @
          lit ''a.txt | 1 +'' @ [10] @ lit '' 1 file changed, 1 insertion(+)'') =
       [lit ''## Commit Log'', lit ''## Diff Stats'', lit ''## Changed Files (name-status)'',
        lit ''## Diff Stats'']"
proof -
  have text_of: "collectGitHistoryText headedBodyShell
      \<lparr>from_rev = lit ''v1.0.0'', to_rev = lit ''v1.1.0''\<rparr> =
     Inr (lit ''# Git History'' @ [10] @ [10] @
          lit ''## Commit Log'' @ [10] @
          lit ''4f2a9c1'' @ [9] @ lit ''Ann'' @ [9] @ lit ''2024-06-01 10:00:00 +0000'' @ [9] @
          lit ''Add a.txt'' @ [10] @ lit ''## Diff Stats'' @ [10] @ [10] @
          lit ''## Changed Files (name-status)'' @ [10] @ lit ''A'' @ [9] @ lit ''a.txt'' @
          [10] @ [10] @
          lit ''## Diff Stats'' @ [10] @
          lit ''a.txt | 1 +'' @ [10] @ lit '' 1 file changed, 1 insertion(+)'')"
    by (simp add: collectGitHistoryText_def headedBodyShell_def run_def Let_def orElse_def
        logCommand_def nameStatusCommand_def statCommand_def logFormat_def trim_def
        isWhiteSpace_def lit_def)
  have lines_of: "headingLines
        (lit ''# Git History'' @ [10] @ [10] @
          lit ''## Commit Log'' @ [10] @
          lit ''4f2a9c1'' @ [9] @ lit ''Ann'' @ [9] @ lit ''2024-06-01 10:00:00 +0000'' @ [9] @
          lit ''Add a.txt'' @ [10] @ lit ''## Diff Stats'' @ [10] @ [10] @
          lit ''## Changed Files (name-status)'' @ [10] @ lit ''A'' @ [9] @ lit ''a.txt'' @
          [10] @ [10] @
          lit ''## Diff Stats'' @ [10] @
          lit ''a.txt | 1 +'' @ [10] @ lit '' 1 file changed, 1 insertion(+)'') =
       [lit ''## Commit Log'', lit ''## Diff Stats'', lit ''## Changed Files (name-status)'',
        lit ''## Diff Stats'']"
    by (simp add: headingLines_def isHeadingLine_def lit_def)
  from text_of lines_of show ?thesis by (rule conjI)
qed

text \<open>
  Claim C2, amended: whenever the three queries return, the history text is the title
  and then three blocks in the fixed order commit log, changed files, diff statistics,
  each a heading line followed by its body; the body is the trimmed output of the
  query, or the fixed placeholder of the section when that output is empty (or white
  space only), and it is never the empty string. When no line of the three trimmed
  outputs is itself a heading line, the text has exactly three heading lines, those of
  the three sections in this order.
\<close>

theorem collectGitHistoryText_sections:
  assumes "exec (logCommand (from_rev r) (to_rev r)) = Some logText"
    and "exec (nameStatusCommand (from_rev r) (to_rev r)) = Some filesText"
    and "exec (statCommand (from_rev r) (to_rev r)) = Some statsText"
  shows "collectGitHistoryText exec r =
           Inr (lit ''# Git History'' @ [10] @ [10] @
                lit ''## Commit Log'' @ [10] @
                orElse (trim logText) (lit ''(No commits)'') @ [10] @ [10] @
                lit ''## Changed Files (name-status)'' @ [10] @
                orElse (trim filesText) (lit ''(No file changes)'') @ [10] @ [10] @
                lit ''## Diff Stats'' @ [10] @
                orElse (trim statsText) (lit ''(No stats)''))
         \<and> orElse (trim logText) (lit ''(No commits)'') \<noteq> []
         \<and> orElse (trim filesText) (lit ''(No file changes)'') \<noteq> []
         \<and> orElse (trim statsText) (lit ''(No stats)'') \<noteq> []
         \<and> ((\<forall>c\<in>set logText. isWhiteSpace c) \<longrightarrow>
                orElse (trim logText) (lit ''(No commits)'') = lit ''(No commits)'')
         \<and> ((\<forall>c\<in>set filesText. isWhiteSpace c) \<longrightarrow>
                orElse (trim filesText) (lit ''(No file changes)'') = lit ''(No file changes)'')
         \<and> ((\<forall>c\<in>set statsText. isWhiteSpace c) \<longrightarrow>
                orElse (trim statsText) (lit ''(No stats)'') = lit ''(No stats)'')
         \<and> ((\<forall>l\<in>set (split 10 (trim logText)). \<not> isHeadingLine l) \<and>
            (\<forall>l\<in>set (split 10 (trim filesText)). \<not> isHeadingLine l) \<and>
            (\<forall>l\<in>set (split 10 (trim statsText)). \<not> isHeadingLine l) \<longrightarrow>
              (\<forall>t. collectGitHistoryText exec r = Inr t \<longrightarrow>
                 headingLines t =
                   [lit ''## Commit Log'', lit ''## Changed Files (name-status)'',
                    lit ''## Diff Stats'']))"
proof -
  have out: "collectGitHistoryText exec r =
           Inr (lit ''# Git History'' @ [10] @ [10] @
                lit ''## Commit Log'' @ [10] @
                orElse (trim logText) (lit ''(No commits)'') @ [10] @ [10] @
                lit ''## Changed Files (name-status)'' @ [10] @
                orElse (trim filesText) (lit ''(No file changes)'') @ [10] @ [10] @
                lit ''## Diff Stats'' @ [10] @
                orElse (trim statsText) (lit ''(No stats)''))"
    using assms by (simp add: collectGitHistoryText_def run_def Let_def)
  have filled: "\<And>s p. p \<noteq> [] \<Longrightarrow> orElse s (lit p) \<noteq> []"
    by (simp add: orElse_def)
  have placeholder: "\<And>s p. (\<forall>c\<in>set s. isWhiteSpace c) \<Longrightarrow> orElse (trim s) p = p"
    using trim_Nil_iff by (simp add: orElse_def)
  have bodies: "orElse (trim logText) (lit ''(No commits)'') \<noteq> []
         \<and> orElse (trim filesText) (lit ''(No file changes)'') \<noteq> []
         \<and> orElse (trim statsText) (lit ''(No stats)'') \<noteq> []
         \<and> ((\<forall>c\<in>set logText. isWhiteSpace c) \<longrightarrow>
                orElse (trim logText) (lit ''(No commits)'') = lit ''(No commits)'')
         \<and> ((\<forall>c\<in>set filesText. isWhiteSpace c) \<longrightarrow>
                orElse (trim filesText) (lit ''(No file changes)'') = lit ''(No file changes)'')
         \<and> ((\<forall>c\<in>set statsText. isWhiteSpace c) \<longrightarrow>
                orElse (trim statsText) (lit ''(No stats)'') = lit ''(No stats)'')"
    using filled placeholder by simp
  have headings: "(\<forall>l\<in>set (split 10 (trim logText)). \<not> isHeadingLine l) \<and>
            (\<forall>l\<in>set (split 10 (trim filesText)). \<not> isHeadingLine l) \<and>
            (\<forall>l\<in>set (split 10 (trim statsText)). \<not> isHeadingLine l) \<longrightarrow>
              (\<forall>t. collectGitHistoryText exec r = Inr t \<longrightarrow>
                 headingLines t =
                   [lit ''## Commit Log'', lit ''## Changed Files (name-status)'',
                    lit ''## Diff Stats''])"
    using collectGitHistoryText_heading_lines [OF _ assms] by blast
  from out bodies headings show ?thesis by blast
qed

theorem collectGitHistoryText_sections_witness:
  "collectGitHistoryText
     (\<lambda>cmd. if cmd = nameStatusCommand (lit ''v1.0.0'') (lit ''v1.1.0'')
            then Some (lit ''A'' @ [9] @ lit ''a.txt'' @ [10]) else Some [])
     \<lparr>from_rev = lit ''v1.0.0'', to_rev = lit ''v1.1.0''\<rparr> =
     Inr (lit ''# Git History'' @ [10] @ [10] @
          lit ''## Commit Log'' @ [10] @ lit ''(No commits)'' @ [10] @ [10] @
          lit ''## Changed Files (name-status)'' @ [10] @ lit ''A'' @ [9] @ lit ''a.txt'' @
          [10] @ [10] @
          lit ''## Diff Stats'' @ [10] @ lit ''(No stats)'')
   \<and> headingLines
        (lit ''# Git History'' @ [10] @ [10] @
          lit ''## Commit Log'' @ [10] @ lit ''(No commits)'' @ [10] @ [10] @
          lit ''## Changed Files (name-status)'' @ [10] @ lit ''A'' @ [9] @ lit ''a.txt'' @
          [10] @ [10] @
          lit ''## Diff Stats'' @ [10] @ lit ''(No stats)'') =
       [lit ''## Commit Log'', lit ''## Changed Files (name-status)'', lit ''## Diff Stats'']"
proof -
  let ?exec = "\<lambda>cmd. if cmd = nameStatusCommand (lit ''v1.0.0'') (lit ''v1.1.0'')
            then Some (lit ''A'' @ [9] @ lit ''a.txt'' @ [10]) else Some []"
  let ?r = "\<lparr>from_rev = lit ''v1.0.0'', to_rev = lit ''v1.1.0''\<rparr>"
  let ?t = "lit ''# Git History'' @ [10] @ [10] @
          lit ''## Commit Log'' @ [10] @ lit ''(No commits)'' @ [10] @ [10] @
          lit ''## Changed Files (name-status)'' @ [10] @ lit ''A'' @ [9] @ lit ''a.txt'' @
          [10] @ [10] @
          lit ''## Diff Stats'' @ [10] @ lit ''(No stats)''"
  have q1: "?exec (logCommand (from_rev ?r) (to_rev ?r)) = Some []"
    by (simp add: logCommand_def nameStatusCommand_def lit_def)
  have q2: "?exec (nameStatusCommand (from_rev ?r) (to_rev ?r)) =
              Some (lit ''A'' @ [9] @ lit ''a.txt'' @ [10])"
    by simp
  have q3: "?exec (statCommand (from_rev ?r) (to_rev ?r)) = Some []"
    by (simp add: statCommand_def nameStatusCommand_def lit_def)
  have body: "orElse (trim (lit ''A'' @ [9] @ lit ''a.txt'' @ [10])) (lit ''(No file changes)'') =
              lit ''A'' @ [9] @ lit ''a.txt''"
    by (simp add: orElse_def trim_def isWhiteSpace_def lit_def)
  have blank: "\<forall>c\<in>set ([] :: jsstring). isWhiteSpace c"
    by simp
  have plain1: "\<forall>l\<in>set (split 10 (trim [])). \<not> isHeadingLine l"
    by (simp add: trim_def isHeadingLine_def lit_def)
  have plain2: "\<forall>l\<in>set (split 10 (trim (lit ''A'' @ [9] @ lit ''a.txt'' @ [10]))). \<not> isHeadingLine l"
    by (simp add: trim_def isWhiteSpace_def isHeadingLine_def lit_def)
  note sections = collectGitHistoryText_sections [OF q1 q2 q3]
  have text_of: "collectGitHistoryText ?exec ?r = Inr ?t"
    using sections body blank by simp
  have "\<forall>t. collectGitHistoryText ?exec ?r = Inr t \<longrightarrow>
      headingLines t =
        [lit ''## Commit Log'', lit ''## Changed Files (name-status)'', lit ''## Diff Stats'']"
    using sections plain1 plain2 by blast
  with text_of have "headingLines ?t =
      [lit ''## Commit Log'', lit ''## Changed Files (name-status)'', lit ''## Diff Stats'']"
    by blast
  with text_of show ?thesis by (rule conjI)
qed

section \<open>Properties of the call of the completion service\<close>

text \<open>
  Claim C3: when the response has a status from 200 to 299 and its content field is a
  string that is empty or consists of white space only, \<open>callAzureOpenAI\<close> fails with
  \<open>EmptyCompletion\<close> and returns no content. \<open>key\<close> is the credential in use: the
  environment variable, or the typed one when the variable is unset or empty.
\<close>

theorem callAzureOpenAI_empty_completion:
  assumes "key = (case apiKey of None \<Rightarrow> typed | Some k \<Rightarrow> if k = [] then typed else k)"
    and "key \<noteq> []"
    and "fetch (completionRequest key historyMarkdown) = Some res"
    and "200 \<le> status res" and "status res \<le> 299"
    and "bodyJson res = Some data"
    and "contentField data = JStr s"
    and "\<forall>c\<in>set s. isWhiteSpace c"
  shows "snd (callAzureOpenAI apiKey typed fetch historyMarkdown) = Inl EmptyCompletion"
  using assms by (simp add: callAzureOpenAI_def Let_def ok_def trim_Nil_iff)

theorem callAzureOpenAI_empty_completion_witness:
  "snd (callAzureOpenAI (Some (lit ''sk-sample'')) []
     (\<lambda>req. Some \<lparr>status = 200, statusText = lit ''OK'', bodyText = None,
        bodyJson = Some (JObj [(lit ''choices'',
          JArr [JObj [(lit ''message'', JObj [(lit ''content'', JStr [32, 10, 9])])]])])\<rparr>)
     (lit ''# Git History'')) = Inl EmptyCompletion"
proof -
  let ?data = "JObj [(lit ''choices'',
          JArr [JObj [(lit ''message'', JObj [(lit ''content'', JStr [32, 10, 9])])]])]"
  let ?res = "\<lparr>status = 200, statusText = lit ''OK'', bodyText = None, bodyJson = Some ?data\<rparr>"
  have key: "lit ''sk-sample'' =
      (case Some (lit ''sk-sample'') of None \<Rightarrow> [] | Some k \<Rightarrow> if k = [] then [] else k)"
    by simp
  have filled: "lit ''sk-sample'' \<noteq> []"
    by simp
  have field: "contentField ?data = JStr [32, 10, 9]"
    by (simp add: contentField_def)
  have blank: "\<forall>c\<in>set [32, 10, 9]. isWhiteSpace c"
    by (simp add: isWhiteSpace_def)
  show ?thesis
    by (rule callAzureOpenAI_empty_completion [where res = ?res and data = ?data
          and fetch = "\<lambda>req. Some ?res", OF key filled _ _ _ _ field blank]) simp_all
qed

text \<open>
  Claim C4: when the response has a status outside 200 to 299, \<open>callAzureOpenAI\<close> fails
  with \<open>CompletionServiceError\<close>; the error carries the status and the body of the
  response, and its message holds the status in decimal and the body as it was read.
\<close>

theorem callAzureOpenAI_service_error:
  assumes "key = (case apiKey of None \<Rightarrow> typed | Some k \<Rightarrow> if k = [] then typed else k)"
    and "key \<noteq> []"
    and "fetch (completionRequest key historyMarkdown) = Some res"
    and "status res < 200 \<or> 299 < status res"
    and "bodyText res = Some text"
  shows "snd (callAzureOpenAI apiKey typed fetch historyMarkdown) =
           Inl (CompletionServiceError (status res) (statusText res) text)
         \<and> message (CompletionServiceError (status res) (statusText res) text) =
             Some (lit ''Azure OpenAI error: '' @ decimal (status res) @ lit '' '' @
                   statusText res @ lit '' - '' @ text)"
  using assms by (auto simp add: callAzureOpenAI_def Let_def ok_def)

theorem callAzureOpenAI_service_error_witness:
  "snd (callAzureOpenAI (Some (lit ''sk-sample'')) []
     (\<lambda>req. Some \<lparr>status = 429, statusText = lit ''Too Many Requests'',
        bodyText = Some (lit ''quota exceeded''), bodyJson = None\<rparr>)
     (lit ''# Git History'')) =
     Inl (CompletionServiceError 429 (lit ''Too Many Requests'') (lit ''quota exceeded''))
   \<and> message (CompletionServiceError 429 (lit ''Too Many Requests'') (lit ''quota exceeded'')) =
     Some (lit ''Azure OpenAI error: 429 Too Many Requests - quota exceeded'')"
proof -
  let ?res = "\<lparr>status = 429, statusText = lit ''Too Many Requests'',
        bodyText = Some (lit ''quota exceeded''), bodyJson = None\<rparr>"
  have key: "lit ''sk-sample'' =
      (case Some (lit ''sk-sample'') of None \<Rightarrow> [] | Some k \<Rightarrow> if k = [] then [] else k)"
    by simp
  have filled: "lit ''sk-sample'' \<noteq> []"
    by simp
  have digits: "decimal 429 = lit ''429''"
    by (simp add: decimal.simps lit_def)
  have rendered: "lit ''Azure OpenAI error: '' @ lit ''429'' @ lit '' '' @ lit ''Too Many Requests'' @
      lit '' - '' @ lit ''quota exceeded'' =
      lit ''Azure OpenAI error: 429 Too Many Requests - quota exceeded''"
    by (simp add: lit_def)
  have "snd (callAzureOpenAI (Some (lit ''sk-sample'')) [] (\<lambda>req. Some ?res)
          (lit ''# Git History'')) =
          Inl (CompletionServiceError (status ?res) (statusText ?res) (lit ''quota exceeded''))
        \<and> message (CompletionServiceError (status ?res) (statusText ?res) (lit ''quota exceeded'')) =
          Some (lit ''Azure OpenAI error: '' @ decimal (status ?res) @ lit '' '' @
                statusText ?res @ lit '' - '' @ lit ''quota exceeded'')"
    by (rule callAzureOpenAI_service_error [where res = ?res and fetch = "\<lambda>req. Some ?res",
          OF key filled]) simp_all
  then show ?thesis
    using digits rendered by simp
qed

text \<open>
  Claim C10: an environment variable that is set to the empty string is treated as an
  absent one: the masked prompt is shown, and when the typed key is empty too the call
  fails with \<open>MissingCredential\<close> and no request has been sent.
\<close>

theorem callAzureOpenAI_empty_key_absent:
  "callAzureOpenAI (Some []) typed fetch historyMarkdown =
     callAzureOpenAI None typed fetch historyMarkdown
   \<and> PromptedPassword \<in> set (fst (callAzureOpenAI (Some []) typed fetch historyMarkdown))
   \<and> callAzureOpenAI (Some []) [] fetch historyMarkdown =
       ([PromptedPassword], Inl MissingCredential)"
  by (simp add: callAzureOpenAI_def Let_def)

theorem callAzureOpenAI_empty_key_absent_witness:
  "callAzureOpenAI (Some []) [] sampleService (lit ''# Git History'') =
     ([PromptedPassword], Inl MissingCredential)
   \<and> PromptedPassword \<in>
       set (fst (callAzureOpenAI (Some []) (lit ''sk-sample'') sampleService (lit ''# Git History'')))"
  using callAzureOpenAI_empty_key_absent [of "[]" sampleService "lit ''# Git History''"]
    callAzureOpenAI_empty_key_absent [of "lit ''sk-sample''" sampleService "lit ''# Git History''"]
  by blast


section \<open>Properties of the site writer and of the run\<close>

text \<open>
  Claim C6: \<open>createDocsifySite\<close> is idempotent on the Markdown. After a run that
  succeeds, \<open>README.md\<close> holds the Markdown, and a second run with the same Markdown
  succeeds and leaves every file as it is. An \<open>index.html\<close> that exists before a run is
  the same after it, and after the first run no later run, with whatever Markdown,
  changes \<open>index.html\<close>.
\<close>

theorem createDocsifySite_idempotent:
  assumes "createDocsifySite rootDir md fs = (fs1, Inr dir)"
  shows "fs1 (pathJoin dir (lit ''README.md'')) = Some (File md)
       \<and> createDocsifySite rootDir md fs1 = (fs1, Inr dir)
       \<and> (existsSync fs (pathJoin dir (lit ''index.html'')) \<longrightarrow>
            fs1 (pathJoin dir (lit ''index.html'')) = fs (pathJoin dir (lit ''index.html'')))
       \<and> (\<forall>md' fs2 r. createDocsifySite rootDir md' fs1 = (fs2, r) \<longrightarrow>
            fs2 (pathJoin dir (lit ''index.html'')) = fs1 (pathJoin dir (lit ''index.html'')))"
proof -
  note s = createDocsifySite_success [OF assms]
  have same: "fs1(pathJoin dir (lit ''README.md'') \<mapsto> File md) = fs1"
    using s(3) by (simp add: fun_upd_idem_iff)
  have again: "createDocsifySite rootDir md fs1 = (fs1, Inr dir)"
  proof -
    have "writeFileSync fs1 (pathJoin dir (lit ''README.md'')) md = Inr fs1"
      using s(2,3) same by (simp add: writeFileSync_def)
    then show ?thesis
      using s(2,4) unfolding createDocsifySite_def s(1) [symmetric] Let_def
      by (simp add: existsSync_def)
  qed
  have kept: "existsSync fs (pathJoin dir (lit ''index.html'')) \<longrightarrow>
            fs1 (pathJoin dir (lit ''index.html'')) = fs (pathJoin dir (lit ''index.html''))"
  proof
    assume "existsSync fs (pathJoin dir (lit ''index.html''))"
    then show "fs1 (pathJoin dir (lit ''index.html'')) = fs (pathJoin dir (lit ''index.html''))"
      unfolding s(1) by (rule createDocsifySite_index_kept [OF assms])
  qed
  have later: "\<forall>md' fs2 r. createDocsifySite rootDir md' fs1 = (fs2, r) \<longrightarrow>
            fs2 (pathJoin dir (lit ''index.html'')) = fs1 (pathJoin dir (lit ''index.html''))"
  proof (intro allI impI)
    fix md' fs2 r
    assume run2: "createDocsifySite rootDir md' fs1 = (fs2, r)"
    have "existsSync fs1 (pathJoin dir (lit ''index.html''))"
      using s(4) by (simp add: existsSync_def)
    then show "fs2 (pathJoin dir (lit ''index.html'')) = fs1 (pathJoin dir (lit ''index.html''))"
      unfolding s(1) by (rule createDocsifySite_index_kept [OF run2])
  qed
  from s(3) again kept later show ?thesis by blast
qed

theorem createDocsifySite_idempotent_witness:
  "createDocsifySite [lit ''/repo''] (lit ''# Adds a.txt'') sampleFiles =
     (sampleSiteFiles, Inr (pathJoin [lit ''/repo''] (lit ''.diffgen_site'')))
   \<and> createDocsifySite [lit ''/repo''] (lit ''# Adds a.txt'') sampleSiteFiles =
     (sampleSiteFiles, Inr (pathJoin [lit ''/repo''] (lit ''.diffgen_site'')))
   \<and> fst (createDocsifySite [lit ''/repo''] (lit ''# Changes b.txt'') sampleSiteFiles)
       (pathJoin (pathJoin [lit ''/repo''] (lit ''.diffgen_site'')) (lit ''index.html'')) =
     Some (File indexHtml)
   \<and> fst (createDocsifySite [lit ''/repo''] (lit ''# Adds a.txt'') editedSiteFiles)
       (pathJoin (pathJoin [lit ''/repo''] (lit ''.diffgen_site'')) (lit ''index.html'')) =
     Some (File (lit ''<html>edited</html>''))"
proof -
  let ?site = "pathJoin [lit ''/repo''] (lit ''.diffgen_site'')"
  let ?index = "pathJoin ?site (lit ''index.html'')"
  have first: "createDocsifySite [lit ''/repo''] (lit ''# Adds a.txt'') sampleFiles =
      (sampleSiteFiles, Inr ?site)"
    using names_distinct(1)
    by (simp add: createDocsifySite_def Let_def existsSync_def mkdirSync_def writeFileSync_def
        sampleFiles_def sampleSiteFiles_def pathJoin_def)
  note idem = createDocsifySite_idempotent [OF first]
  have second: "createDocsifySite [lit ''/repo''] (lit ''# Adds a.txt'') sampleSiteFiles =
      (sampleSiteFiles, Inr ?site)"
    using idem by blast
  have "fst (createDocsifySite [lit ''/repo''] (lit ''# Changes b.txt'') sampleSiteFiles) ?index =
      sampleSiteFiles ?index"
    using idem [THEN conjunct2, THEN conjunct2, THEN conjunct2, rule_format,
        of "lit ''# Changes b.txt''"
          "fst (createDocsifySite [lit ''/repo''] (lit ''# Changes b.txt'') sampleSiteFiles)"
          "snd (createDocsifySite [lit ''/repo''] (lit ''# Changes b.txt'') sampleSiteFiles)"]
    by simp
  moreover have "sampleSiteFiles ?index = Some (File indexHtml)"
    by (simp add: sampleSiteFiles_def)
  ultimately have third:
    "fst (createDocsifySite [lit ''/repo''] (lit ''# Changes b.txt'') sampleSiteFiles) ?index =
      Some (File indexHtml)"
    by (rule trans)
  have edited: "editedSiteFiles ?index = Some (File (lit ''<html>edited</html>''))"
    by (simp add: editedSiteFiles_def)
  have run: "createDocsifySite [lit ''/repo''] (lit ''# Adds a.txt'') editedSiteFiles =
      (editedSiteFiles(pathJoin ?site (lit ''README.md'') \<mapsto> File (lit ''# Adds a.txt'')),
       Inr ?site)"
    using names_distinct(1)
    by (simp add: createDocsifySite_def Let_def existsSync_def mkdirSync_def writeFileSync_def
        sampleFiles_def editedSiteFiles_def pathJoin_def)
  have "fst (createDocsifySite [lit ''/repo''] (lit ''# Adds a.txt'') editedSiteFiles) ?index =
      editedSiteFiles ?index"
    using createDocsifySite_idempotent [OF run] edited by (simp add: existsSync_def run)
  then have fourth:
    "fst (createDocsifySite [lit ''/repo''] (lit ''# Adds a.txt'') editedSiteFiles) ?index =
      Some (File (lit ''<html>edited</html>''))"
    using edited by (rule trans)
  from first second third fourth show ?thesis by blast
qed

text \<open>
  Claim C9: after a run that succeeds, \<open>README.md\<close> in the site directory and
  \<open>CHANGELOG.generated.md\<close> in the root of the repository hold the same text.
\<close>

theorem main_readme_is_changelog:
  assumes "main w fs = (fs', evs, Inr dir)"
    and "shell_of w topLevelCommand = Some out"
  shows "dir = pathJoin [trim out] (lit ''.diffgen_site'')
       \<and> (\<exists>md. fs' (pathJoin [trim out] (lit ''CHANGELOG.generated.md'')) = Some (File md)
              \<and> fs' (pathJoin dir (lit ''README.md'')) = Some (File md))"
proof -
  from assms obtain md fs1 where
    w1: "writeFileSync fs (pathJoin [trim out] (lit ''CHANGELOG.generated.md'')) md = Inr fs1"
    and c: "createDocsifySite [trim out] md fs1 = (fs', Inr dir)"
    by (auto simp add: main_def run_def Let_def split: if_splits sum.splits prod.splits)
  note s = createDocsifySite_success [OF c]
  have "fs' (pathJoin [trim out] (lit ''CHANGELOG.generated.md'')) =
        fs1 (pathJoin [trim out] (lit ''CHANGELOG.generated.md''))"
    using names_distinct(2) by (intro createDocsifySite_frame [OF c]) simp_all
  moreover have "fs1 (pathJoin [trim out] (lit ''CHANGELOG.generated.md'')) = Some (File md)"
    using writeFileSync_Inr [OF w1] by simp
  ultimately show ?thesis using s(1,3) by auto
qed

theorem main_readme_is_changelog_witness:
  "snd (snd (main sampleWorld sampleFiles)) = Inr (pathJoin [lit ''/repo''] (lit ''.diffgen_site''))
   \<and> fst (main sampleWorld sampleFiles) (pathJoin [lit ''/repo''] (lit ''CHANGELOG.generated.md'')) =
       Some (File (lit ''# Adds a.txt''))
   \<and> fst (main sampleWorld sampleFiles)
        (pathJoin (pathJoin [lit ''/repo''] (lit ''.diffgen_site'')) (lit ''README.md'')) =
       Some (File (lit ''# Adds a.txt''))"
proof -
  let ?root = "[lit ''/repo'']"
  let ?site = "pathJoin ?root (lit ''.diffgen_site'')"
  let ?changelog = "pathJoin ?root (lit ''CHANGELOG.generated.md'')"
  have top: "shell_of sampleWorld topLevelCommand = Some (lit ''/repo'' @ [10])"
    by (simp add: sampleWorld_def sampleShell_def)
  have root: "trim (lit ''/repo'' @ [10]) = lit ''/repo''"
    by (simp add: trim_def isWhiteSpace_def lit_def)
  have range: "selectRange sampleWorld = Inr \<lparr>from_rev = lit ''v1.0.0'', to_rev = lit ''v1.1.0''\<rparr>"
    by (simp add: selectRange_def sampleWorld_def selectByTags_def tagLines_def run_def
        sampleShell_def tagListCommand_def topLevelCommand_def lit_def)
  obtain h where history:
    "collectGitHistoryText (shell_of sampleWorld)
       \<lparr>from_rev = lit ''v1.0.0'', to_rev = lit ''v1.1.0''\<rparr> = Inr h"
    by (simp add: collectGitHistoryText_def sampleWorld_def sampleShell_def run_def Let_def
        tagListCommand_def topLevelCommand_def logCommand_def nameStatusCommand_def
        statCommand_def logFormat_def lit_def)
  have completion:
    "callAzureOpenAI (envApiKey sampleWorld) (typedKey sampleWorld) (service sampleWorld) h =
       ([Fetched (completionRequest (lit ''sk-sample'') h)], Inr (lit ''# Adds a.txt''))"
    by (simp add: callAzureOpenAI_def sampleWorld_def sampleService_def sampleCompletion_def
        contentField_def ok_def Let_def trim_def isWhiteSpace_def lit_def)
  have outcome: "snd (snd (main sampleWorld sampleFiles)) = Inr ?site"
    and changelog: "fst (main sampleWorld sampleFiles) ?changelog = Some (File (lit ''# Adds a.txt''))"
    using top root range history completion names_distinct
    by (simp_all add: main_def ensureGitRepository_def run_def Let_def sampleFiles_def
        writeFileSync_def createDocsifySite_def existsSync_def mkdirSync_def pathJoin_def
        sampleWorld_def)
  have run: "main sampleWorld sampleFiles =
      (fst (main sampleWorld sampleFiles), fst (snd (main sampleWorld sampleFiles)), Inr ?site)"
    using outcome by (simp add: prod_eq_iff)
  from main_readme_is_changelog [OF run top] root changelog
  have "fst (main sampleWorld sampleFiles) (pathJoin ?site (lit ''README.md'')) =
      Some (File (lit ''# Adds a.txt''))"
    by auto
  with outcome changelog show ?thesis by blast
qed

text \<open>
  Claim C8: when a step up to and including the call of the completion service fails
  (the check for a repository, the query for its root, range resolution, history
  collection, or the call itself with a missing key, a service error or an empty
  completion), the run ends with that error and the files are those it started with:
  neither \<open>CHANGELOG.generated.md\<close> nor anything in the site directory is written.
\<close>

theorem main_failure_writes_nothing:
  "(\<not> ensureGitRepository (revparse w) \<longrightarrow> main w fs = (fs, [], Inl NotAGitRepository))
 \<and> (ensureGitRepository (revparse w) \<and> run (shell_of w) topLevelCommand = Inl e \<longrightarrow>
      main w fs = (fs, [], Inl e))
 \<and> (ensureGitRepository (revparse w) \<and> run (shell_of w) topLevelCommand = Inr out \<and>
    selectRange w = Inl e \<longrightarrow> main w fs = (fs, [], Inl e))
 \<and> (ensureGitRepository (revparse w) \<and> run (shell_of w) topLevelCommand = Inr out \<and>
    selectRange w = Inr rng \<and> collectGitHistoryText (shell_of w) rng = Inl e \<longrightarrow>
      main w fs = (fs, [], Inl e))
 \<and> (ensureGitRepository (revparse w) \<and> run (shell_of w) topLevelCommand = Inr out \<and>
    selectRange w = Inr rng \<and> collectGitHistoryText (shell_of w) rng = Inr historyMarkdown \<and>
    callAzureOpenAI (envApiKey w) (typedKey w) (service w) historyMarkdown = (evs, Inl e) \<longrightarrow>
      main w fs = (fs, evs, Inl e))"
  by (simp add: main_def Let_def)

theorem main_failure_writes_nothing_witness:
  "main (sampleWorld\<lparr>revparse := None\<rparr>) sampleFiles = (sampleFiles, [], Inl NotAGitRepository)
 \<and> main (sampleWorld\<lparr>shell_of := (\<lambda>cmd. None)\<rparr>) sampleFiles =
     (sampleFiles, [], Inl (CommandFailed topLevelCommand))
 \<and> main (sampleWorld\<lparr>chosenTo := lit ''v1.0.0''\<rparr>) sampleFiles =
     (sampleFiles, [], Inl (InvalidSelection TagSelection))
 \<and> main (sampleWorld\<lparr>chosenTo := lit ''v9''\<rparr>) sampleFiles =
     (sampleFiles, [], Inl (CommandFailed (logCommand (lit ''v1.0.0'') (lit ''v9''))))
 \<and> main (sampleWorld\<lparr>envApiKey := None\<rparr>) sampleFiles =
     (sampleFiles, [PromptedPassword], Inl MissingCredential)"
proof -
  let ?a = "sampleWorld\<lparr>revparse := None\<rparr>"
  let ?b = "sampleWorld\<lparr>shell_of := (\<lambda>cmd. None)\<rparr>"
  let ?c = "sampleWorld\<lparr>chosenTo := lit ''v1.0.0''\<rparr>"
  let ?d = "sampleWorld\<lparr>chosenTo := lit ''v9''\<rparr>"
  let ?e = "sampleWorld\<lparr>envApiKey := None\<rparr>"
  have inside: "ensureGitRepository (revparse sampleWorld)"
    by (simp add: ensureGitRepository_def sampleWorld_def)
  have top: "run sampleShell topLevelCommand = Inr (lit ''/repo'' @ [10])"
    by (simp add: run_def sampleShell_def)
  have a: "main ?a sampleFiles = (sampleFiles, [], Inl NotAGitRepository)"
    using main_failure_writes_nothing [of ?a sampleFiles]
    by (simp add: ensureGitRepository_def)
  have "run (shell_of ?b) topLevelCommand = Inl (CommandFailed topLevelCommand)"
    by (simp add: run_def)
  then have b: "main ?b sampleFiles = (sampleFiles, [], Inl (CommandFailed topLevelCommand))"
    using main_failure_writes_nothing [of ?b sampleFiles "CommandFailed topLevelCommand"] inside
    by simp
  have "selectRange ?c = Inl (InvalidSelection TagSelection)"
    by (simp add: selectRange_def sampleWorld_def selectByTags_def tagLines_def run_def
        sampleShell_def tagListCommand_def topLevelCommand_def lit_def)
  then have c: "main ?c sampleFiles = (sampleFiles, [], Inl (InvalidSelection TagSelection))"
    using main_failure_writes_nothing [of ?c sampleFiles "InvalidSelection TagSelection"
        "lit ''/repo'' @ [10]"] inside top
    by (simp add: sampleWorld_def)
  have range_d: "selectRange ?d = Inr \<lparr>from_rev = lit ''v1.0.0'', to_rev = lit ''v9''\<rparr>"
    by (simp add: selectRange_def sampleWorld_def selectByTags_def tagLines_def run_def
        sampleShell_def tagListCommand_def topLevelCommand_def lit_def)
  have "collectGitHistoryText sampleShell \<lparr>from_rev = lit ''v1.0.0'', to_rev = lit ''v9''\<rparr> =
      Inl (CommandFailed (logCommand (lit ''v1.0.0'') (lit ''v9'')))"
    by (simp add: collectGitHistoryText_def sampleShell_def run_def Let_def
        tagListCommand_def topLevelCommand_def logCommand_def nameStatusCommand_def
        statCommand_def logFormat_def lit_def)
  then have d: "main ?d sampleFiles =
      (sampleFiles, [], Inl (CommandFailed (logCommand (lit ''v1.0.0'') (lit ''v9''))))"
    using main_failure_writes_nothing [of ?d sampleFiles
        "CommandFailed (logCommand (lit ''v1.0.0'') (lit ''v9''))" "lit ''/repo'' @ [10]"
        "\<lparr>from_rev = lit ''v1.0.0'', to_rev = lit ''v9''\<rparr>"] inside top range_d
    by (simp add: sampleWorld_def)
  have range_e: "selectRange ?e = Inr \<lparr>from_rev = lit ''v1.0.0'', to_rev = lit ''v1.1.0''\<rparr>"
    by (simp add: selectRange_def sampleWorld_def selectByTags_def tagLines_def run_def
        sampleShell_def tagListCommand_def topLevelCommand_def lit_def)
  obtain h where history:
    "collectGitHistoryText sampleShell \<lparr>from_rev = lit ''v1.0.0'', to_rev = lit ''v1.1.0''\<rparr> = Inr h"
    by (simp add: collectGitHistoryText_def sampleShell_def run_def Let_def
        tagListCommand_def topLevelCommand_def logCommand_def nameStatusCommand_def
        statCommand_def logFormat_def lit_def)
  have "callAzureOpenAI None [] sampleService h = ([PromptedPassword], Inl MissingCredential)"
    by (simp add: callAzureOpenAI_def)
  then have e: "main ?e sampleFiles = (sampleFiles, [PromptedPassword], Inl MissingCredential)"
    using main_failure_writes_nothing [of ?e sampleFiles MissingCredential "lit ''/repo'' @ [10]"
        "\<lparr>from_rev = lit ''v1.0.0'', to_rev = lit ''v1.1.0''\<rparr>" h "[PromptedPassword]"]
      inside top range_e history
    by (simp add: sampleWorld_def)
  from a b c d e show ?thesis by blast
qed


end
